theory Spec2Isabelle
  imports Main "HOL-Library.Word"
begin

section \<open>Python values\<close>

text \<open>
  The module \<^verbatim>\<open>TikTokApi/api/video.py\<close> works on three kinds of data: decoded JSON trees
  (\<^verbatim>\<open>json.loads\<close>), text (\<^verbatim>\<open>str\<close>) and byte strings (\<^verbatim>\<open>bytes\<close>).
  A JSON tree is one of Python's \<^verbatim>\<open>None\<close>, \<^verbatim>\<open>bool\<close>, \<^verbatim>\<open>int\<close>, \<^verbatim>\<open>float\<close>, \<^verbatim>\<open>str\<close>,
  \<^verbatim>\<open>list\<close> and \<^verbatim>\<open>dict\<close>. A \<^verbatim>\<open>dict\<close> keeps its insertion order, which is the
  order \<^verbatim>\<open>items()\<close> walks, so it is an association list here; the keys of a \<^verbatim>\<open>dict\<close>
  are distinct, and a lookup takes the first entry with the key. A finite \<^verbatim>\<open>float\<close> is
  the dyadic number \<open>m * 2 ^ e\<close>. Text is a list of characters; the markers that the module
  looks for are ASCII, so a page outside ASCII is read as its encoding, in which the
  markers stand at the same places. The interpreter's recursion limit is not modelled.
\<close>

datatype pyfloat = Finite int int | Infinite bool | NaN

datatype json =
    JNull
  | JBool bool
  | JInt int
  | JFloat pyfloat
  | JStr string
  | JList "json list"
  | JDict "(string \<times> json) list"

text \<open>
  The exceptions the module raises or lets through; \<open>Inl\<close> of a result is a raise. All of
  them are subclasses of \<^verbatim>\<open>Exception\<close>, which is what the \<^verbatim>\<open>except\<close> clauses of the
  download loops catch. \<open>RequestError\<close> stands for the exceptions of the HTTP libraries.
\<close>

datatype error =
    InvalidResponseException
  | TypeError
  | KeyError
  | AttributeError
  | ValueError
  | OverflowError
  | StopIteration
  | JSONDecodeError
  | RequestError

type_synonym byte = "8 word"
type_synonym bytes = "byte list"

text \<open>\<^verbatim>\<open>isinstance(value, str)\<close> and the string it then holds.\<close>

fun isinstance_str :: "json \<Rightarrow> bool" where
  "isinstance_str (JStr s) = True"
| "isinstance_str _ = False"

fun str_value :: "json \<Rightarrow> string" where
  "str_value (JStr s) = s"
| "str_value _ = []"

text \<open>
  \<^verbatim>\<open>text.find(sub)\<close>: the lowest index at which \<open>sub\<close> occurs, \<open>None\<close> for Python's \<open>-1\<close>.
  \<^verbatim>\<open>text.find(sub, start)\<close> searches from \<open>start\<close> on; \<^verbatim>\<open>sub in text\<close> asks whether there
  is an occurrence; \<^verbatim>\<open>text[start:end]\<close> with non-negative bounds is the slice.
\<close>

fun find_str :: "'a list \<Rightarrow> 'a list \<Rightarrow> nat option" where
  "find_str [] sub = (if sub = [] then Some 0 else None)"
| "find_str (c # cs) sub =
     (if take (length sub) (c # cs) = sub then Some 0
      else map_option Suc (find_str cs sub))"

definition find_from :: "'a list \<Rightarrow> 'a list \<Rightarrow> nat \<Rightarrow> nat option" where
  "find_from text sub start =
     (if length text < start then None
      else map_option (\<lambda>i. start + i) (find_str (drop start text) sub))"

definition contains :: "'a list \<Rightarrow> 'a list \<Rightarrow> bool" where
  "contains sub text = (find_str text sub \<noteq> None)"

definition slice :: "'a list \<Rightarrow> nat \<Rightarrow> nat \<Rightarrow> 'a list" where
  "slice text start end = take (end - start) (drop start text)"

section \<open>Collecting download addresses: \<^verbatim>\<open>extract_url_lists\<close>\<close>

text \<open>
  \<^verbatim>\<open>extract_url_lists(data)\<close> (lines 402 to 425). The two \<^verbatim>\<open>for\<close> loops are the two
  list recursions; \<^verbatim>\<open>urls.append\<close> and \<^verbatim>\<open>urls.extend\<close> add at the end of the list that is
  returned. The function reads \<open>data\<close> and builds a new list.
\<close>

fun extract_url_lists :: "json \<Rightarrow> string list"
  and extract_items :: "(string \<times> json) list \<Rightarrow> string list"
  and extract_elems :: "json list \<Rightarrow> string list" where
  "extract_url_lists (JDict kvs) = extract_items kvs"
| "extract_url_lists (JList xs) = extract_elems xs"
| "extract_url_lists JNull = []"
| "extract_url_lists (JBool b) = []"
| "extract_url_lists (JInt n) = []"
| "extract_url_lists (JFloat f) = []"
| "extract_url_lists (JStr s) = []"
| "extract_items [] = []"
| "extract_items ((key, val) # rest) =
     (if key = ''downloadAddr'' \<and> isinstance_str val
      then [str_value val] @ extract_items rest
      else extract_url_lists val @ extract_items rest)"
| "extract_elems [] = []"
| "extract_elems (item # rest) = extract_url_lists item @ extract_elems rest"

text \<open>
  The specification's reading of the collector. \<open>tree_fields t\<close> lists every field (key and
  value) of every mapping anywhere in \<open>t\<close>, in document order: a field comes before the
  fields nested in its value, and those before the next sibling. The collector is to
  return the values of the fields named \<open>downloadAddr\<close> that hold a string.
\<close>

fun tree_fields :: "json \<Rightarrow> (string \<times> json) list" where
  "tree_fields (JDict kvs) = concat (map (\<lambda>(k, v). (k, v) # tree_fields v) kvs)"
| "tree_fields (JList xs) = concat (map tree_fields xs)"
| "tree_fields JNull = []"
| "tree_fields (JBool b) = []"
| "tree_fields (JInt n) = []"
| "tree_fields (JFloat f) = []"
| "tree_fields (JStr s) = []"

definition downloadAddr_strings :: "json \<Rightarrow> string list" where
  "downloadAddr_strings t = [s. (k, JStr s) \<leftarrow> tree_fields t, k = ''downloadAddr'']"

fun is_container :: "json \<Rightarrow> bool" where
  "is_container (JDict kvs) = True"
| "is_container (JList xs) = True"
| "is_container _ = False"

section \<open>The container signature\<close>

text \<open>
  Both download loops test a byte string with the same expression (lines 224 and 263):
  \<^verbatim>\<open>not content or b'ftyp' not in content[:32]\<close> rejects it. \<open>is_valid_container\<close> is the
  negation of that expression.
\<close>

definition ftyp :: bytes where
  "ftyp = [0x66, 0x74, 0x79, 0x70]"

definition is_valid_container :: "bytes \<Rightarrow> bool" where
  "is_valid_container content = (\<not> (content = [] \<or> \<not> contains ftyp (take 32 content)))"

section \<open>Reading a decoded JSON tree\<close>

text \<open>
  \<^verbatim>\<open>data[key]\<close> with a string key raises \<^verbatim>\<open>KeyError\<close> on a \<^verbatim>\<open>dict\<close> without the key and
  \<^verbatim>\<open>TypeError\<close> on every value that is not a \<^verbatim>\<open>dict\<close>. \<^verbatim>\<open>data.get(key, default)\<close>
  raises \<^verbatim>\<open>AttributeError\<close> on every value that is not a \<^verbatim>\<open>dict\<close>. \<^verbatim>\<open>value != 0\<close> is
  Python's comparison: \<^verbatim>\<open>False\<close> and \<^verbatim>\<open>0.0\<close> equal \<^verbatim>\<open>0\<close>, and no string, list, dict
  or \<^verbatim>\<open>None\<close> does.
\<close>

fun getitem :: "json \<Rightarrow> string \<Rightarrow> error + json" where
  "getitem (JDict kvs) key = (case map_of kvs key of None \<Rightarrow> Inl KeyError | Some v \<Rightarrow> Inr v)"
| "getitem _ key = Inl TypeError"

fun dict_get :: "json \<Rightarrow> string \<Rightarrow> json \<Rightarrow> error + json" where
  "dict_get (JDict kvs) key dflt = Inr (case map_of kvs key of None \<Rightarrow> dflt | Some v \<Rightarrow> v)"
| "dict_get _ key dflt = Inl AttributeError"

fun ne_zero :: "json \<Rightarrow> bool" where
  "ne_zero (JInt n) = (n \<noteq> 0)"
| "ne_zero (JBool b) = b"
| "ne_zero (JFloat (Finite m e)) = (m \<noteq> 0)"
| "ne_zero _ = True"

section \<open>The page state: \<^verbatim>\<open>Video.info\<close>\<close>

definition SIGI_STATE_open :: string where
  \<open>SIGI_STATE_open = ''<script id="SIGI_STATE" type="application/json">''\<close>

definition UNIVERSAL_DATA_open :: string where
  \<open>UNIVERSAL_DATA_open =
     ''<script id="__UNIVERSAL_DATA_FOR_REHYDRATION__" type="application/json">''\<close>

definition script_close :: string where
  "script_close = ''</script>''"

text \<open>
  \<^verbatim>\<open>Video.info\<close>, from the status check to the value of \<^verbatim>\<open>video_info\<close> (lines 107 to
  159). The page is the response's \<^verbatim>\<open>status_code\<close> and \<^verbatim>\<open>text\<close>; \<open>vid\<close> is
  \<^verbatim>\<open>self.id\<close>. \<^verbatim>\<open>json.loads\<close> belongs to the Python library and is the parameter
  \<open>loads\<close>. The first branch of the \<^verbatim>\<open>if\<close> (lines 118 to 127) is \<open>SIGI_STATE_branch\<close>,
  the \<^verbatim>\<open>else\<close> branch (lines 134 to 159) is \<open>UNIVERSAL_DATA_branch\<close>, and the reading
  of the decoded tree in it (lines 149 to 159) is \<open>video_detail_item\<close>. After line 159
  \<^verbatim>\<open>info\<close> stores \<^verbatim>\<open>video_info\<close>, runs \<^verbatim>\<open>__extract_from_data\<close>, hands the response
  cookies to the session and returns \<^verbatim>\<open>video_info\<close>: the whole function is
  \<open>Video_info\<close> below.
\<close>

definition SIGI_STATE_branch ::
  "(string \<Rightarrow> error + json) \<Rightarrow> string \<Rightarrow> string \<Rightarrow> nat \<Rightarrow> error + json" where
  "SIGI_STATE_branch loads text vid found =
     (let start = found + length SIGI_STATE_open in
      case find_from text script_close start of
        None \<Rightarrow> Inl InvalidResponseException
      | Some end' \<Rightarrow>
          (case loads (slice text start end') of
             Inl e \<Rightarrow> Inl e
           | Inr data \<Rightarrow>
               (case getitem data ''ItemModule'' of
                  Inl e \<Rightarrow> Inl e
                | Inr item_module \<Rightarrow> getitem item_module vid)))"

definition video_detail_item :: "json \<Rightarrow> error + json" where
  "video_detail_item data =
     (case dict_get data ''__DEFAULT_SCOPE__'' (JDict []) of
        Inl e \<Rightarrow> Inl e
      | Inr default_scope \<Rightarrow>
     (case dict_get default_scope ''webapp.video-detail'' (JDict []) of
        Inl e \<Rightarrow> Inl e
      | Inr video_detail \<Rightarrow>
     (case dict_get video_detail ''statusCode'' (JInt 0) of
        Inl e \<Rightarrow> Inl e
      | Inr status \<Rightarrow>
          if ne_zero status then Inl InvalidResponseException
          else
     (case dict_get video_detail ''itemInfo'' (JDict []) of
        Inl e \<Rightarrow> Inl e
      | Inr item_info \<Rightarrow>
     (case dict_get item_info ''itemStruct'' JNull of
        Inl e \<Rightarrow> Inl e
      | Inr video_info \<Rightarrow>
          if video_info = JNull then Inl InvalidResponseException
          else Inr video_info)))))"

definition UNIVERSAL_DATA_branch :: "(string \<Rightarrow> error + json) \<Rightarrow> string \<Rightarrow> error + json" where
  "UNIVERSAL_DATA_branch loads text =
     (case find_str text UNIVERSAL_DATA_open of
        None \<Rightarrow> Inl InvalidResponseException
      | Some found \<Rightarrow>
          (let start = found + length UNIVERSAL_DATA_open in
           case find_from text script_close start of
             None \<Rightarrow> Inl InvalidResponseException
           | Some end' \<Rightarrow>
               (case loads (slice text start end') of
                  Inl e \<Rightarrow> Inl e
                | Inr data \<Rightarrow> video_detail_item data)))"

definition info_video_info ::
  "(string \<Rightarrow> error + json) \<Rightarrow> int \<Rightarrow> string \<Rightarrow> string \<Rightarrow> error + json" where
  "info_video_info loads status text vid =
     (if status \<noteq> 200 then Inl InvalidResponseException
      else case find_str text SIGI_STATE_open of
             Some found \<Rightarrow> SIGI_STATE_branch loads text vid found
           | None \<Rightarrow> UNIVERSAL_DATA_branch loads text)"

section \<open>Normalisation: \<^verbatim>\<open>Video.__extract_from_data\<close>\<close>

text \<open>
  The statements of \<^verbatim>\<open>__extract_from_data\<close> up to the assignment of \<^verbatim>\<open>create_time\<close>
  (lines 275 to 285). The later statements build the author, the sound and the hashtags
  through the parent object and run only when line 285 has not raised.

  \<^verbatim>\<open>int(x)\<close>: an \<^verbatim>\<open>int\<close> is kept, a \<^verbatim>\<open>bool\<close> is 0 or 1, a finite \<^verbatim>\<open>float\<close> is
  truncated towards zero, an infinite one raises \<^verbatim>\<open>OverflowError\<close>, a NaN raises
  \<^verbatim>\<open>ValueError\<close>, a \<^verbatim>\<open>str\<close> is parsed (the parser of the Python library is the parameter
  \<open>parse\<close>, with \<open>None\<close> where it raises \<^verbatim>\<open>ValueError\<close>), and \<^verbatim>\<open>None\<close>, a \<^verbatim>\<open>list\<close> and a
  \<^verbatim>\<open>dict\<close> raise \<^verbatim>\<open>TypeError\<close>.

  \<^verbatim>\<open>datetime.fromtimestamp(x)\<close> raises \<^verbatim>\<open>TypeError\<close> when \<open>x\<close> is not a number; what it
  returns or raises on a number (the platform's range and time zone) is the parameter
  \<open>of_number\<close>.
\<close>

definition float_trunc :: "int \<Rightarrow> int \<Rightarrow> int" where
  "float_trunc m e =
     (if 0 \<le> e then m * 2 ^ nat e
      else if 0 \<le> m then m div 2 ^ nat (- e)
      else - ((- m) div 2 ^ nat (- e)))"

fun py_int :: "(string \<Rightarrow> int option) \<Rightarrow> json \<Rightarrow> error + int" where
  "py_int parse (JInt n) = Inr n"
| "py_int parse (JBool b) = Inr (if b then 1 else 0)"
| "py_int parse (JFloat (Finite m e)) = Inr (float_trunc m e)"
| "py_int parse (JFloat (Infinite negative)) = Inl OverflowError"
| "py_int parse (JFloat NaN) = Inl ValueError"
| "py_int parse (JStr s) = (case parse s of None \<Rightarrow> Inl ValueError | Some n \<Rightarrow> Inr n)"
| "py_int parse JNull = Inl TypeError"
| "py_int parse (JList xs) = Inl TypeError"
| "py_int parse (JDict kvs) = Inl TypeError"

text \<open>Lines 279 to 283: the coercion, with \<^verbatim>\<open>except ValueError: pass\<close>.\<close>

definition coerce_timestamp :: "(string \<Rightarrow> int option) \<Rightarrow> json \<Rightarrow> error + json" where
  "coerce_timestamp parse timestamp =
     (if timestamp \<noteq> JNull
      then (case py_int parse timestamp of
              Inr n \<Rightarrow> Inr (JInt n)
            | Inl ValueError \<Rightarrow> Inr timestamp
            | Inl e \<Rightarrow> Inl e)
      else Inr timestamp)"

fun datetime_fromtimestamp :: "(json \<Rightarrow> error + 'd) \<Rightarrow> json \<Rightarrow> error + 'd" where
  "datetime_fromtimestamp of_number JNull = Inl TypeError"
| "datetime_fromtimestamp of_number (JStr s) = Inl TypeError"
| "datetime_fromtimestamp of_number (JList xs) = Inl TypeError"
| "datetime_fromtimestamp of_number (JDict kvs) = Inl TypeError"
| "datetime_fromtimestamp of_number number = of_number number"

record 'd video =
  video_id :: json
  create_time :: 'd

definition extract_from_data ::
  "(string \<Rightarrow> int option) \<Rightarrow> (json \<Rightarrow> error + 'd) \<Rightarrow> json \<Rightarrow> error + 'd video" where
  "extract_from_data parse of_number data =
     (case getitem data ''id'' of
        Inl e \<Rightarrow> Inl e
      | Inr ident \<Rightarrow>
     (case dict_get data ''createTime'' JNull of
        Inl e \<Rightarrow> Inl e
      | Inr timestamp \<Rightarrow>
     (case coerce_timestamp parse timestamp of
        Inl e \<Rightarrow> Inl e
      | Inr timestamp' \<Rightarrow>
     (case datetime_fromtimestamp of_number timestamp' of
        Inl e \<Rightarrow> Inl e
      | Inr created \<Rightarrow> Inr \<lparr>video_id = ident, create_time = created\<rparr>))))"

section \<open>Fetching the media: \<^verbatim>\<open>Video.bytes\<close>\<close>

text \<open>
  The network is the parameter \<open>net\<close>: what a GET request with the given URL, headers and
  cookies comes back with, a response or an exception of the HTTP library
  (\<^verbatim>\<open>requests.get\<close> in whole-body mode, the httpx client in streaming mode). A response is
  its status code, its header lookup and its whole body. The session is the object that
  \<^verbatim>\<open>_get_session\<close> hands to \<^verbatim>\<open>Video.bytes\<close>: its header mapping (\<^verbatim>\<open>session.headers\<close>),
  its proxy and its cookie store.
\<close>

record request =
  req_url :: string
  req_headers :: "string \<rightharpoonup> string"
  req_cookies :: "string \<rightharpoonup> string"

record response =
  status_code :: int
  resp_headers :: "string \<rightharpoonup> string"
  content :: bytes

type_synonym http = "request \<Rightarrow> error + response"

record session =
  session_headers :: "string \<rightharpoonup> string"
  proxy :: "string option"
  cookie_store :: "string \<rightharpoonup> string"

text \<open>
  What \<^verbatim>\<open>Video.bytes\<close> returns: \<^verbatim>\<open>None\<close> (the end of the function body is reached),
  the body of a response, or an asynchronous generator, given by the chunks it yields.
\<close>

datatype fetched = NoneValue | Body bytes | Chunks "bytes list"

text \<open>
  Modelled from the spec: \<^verbatim>\<open>TikTokApi.get_session_cookies\<close> (called at line 196) is
  defined outside this module. The specification gives the session a cookie store with a
  get operation, which a media fetch reads and does not change.
\<close>

definition get_session_cookies :: "session \<Rightarrow> (string \<rightharpoonup> string)" where
  "get_session_cookies s = cookie_store s"

text \<open>
  Whole-body mode, the body of the \<^verbatim>\<open>try\<close> (lines 260 to 269):
  \<^verbatim>\<open>requests.get\<close>, the test of the status and of the \<^verbatim>\<open>Content-Type\<close> header, the test of
  the body, and the two \<^verbatim>\<open>raise\<close> statements.
\<close>

definition standard_attempt :: "http \<Rightarrow> request \<Rightarrow> error + bytes" where
  "standard_attempt net rq =
     (case net rq of
        Inl e \<Rightarrow> Inl e
      | Inr r \<Rightarrow>
          if status_code r = 200
             \<and> contains ''video'' (case resp_headers r ''Content-Type'' of None \<Rightarrow> [] | Some t \<Rightarrow> t)
          then (if \<not> is_valid_container (content r) then Inl StopIteration
                else Inr (content r))
          else Inl InvalidResponseException)"

text \<open>
  The loop of lines 257 to 272. \<^verbatim>\<open>except Exception\<close> catches every exception of the
  \<^verbatim>\<open>try\<close> and goes on with the next URL; after the last URL the function ends without a
  \<^verbatim>\<open>return\<close>. The first component of the result is the list of the URLs that
  \<^verbatim>\<open>logger.info\<close> reports as attempted (line 258).
\<close>

fun bytes_standard ::
  "http \<Rightarrow> (string \<rightharpoonup> string) \<Rightarrow> (string \<rightharpoonup> string) \<Rightarrow> string list \<Rightarrow> string list \<times> fetched" where
  "bytes_standard net h cks [] = ([], NoneValue)"
| "bytes_standard net h cks (u # urls) =
     (case standard_attempt net \<lparr>req_url = u, req_headers = h, req_cookies = cks\<rparr> of
        Inr body \<Rightarrow> ([u], Body body)
      | Inl e \<Rightarrow> (case bytes_standard net h cks urls of (attempted, res) \<Rightarrow> (u # attempted, res)))"

text \<open>
  Streaming mode. After \<^verbatim>\<open>await streamedResponse.aread()\<close> (line 211) the response holds
  its whole body, and \<^verbatim>\<open>streamedResponse.aiter_bytes()\<close> of the httpx library then
  iterates over that loaded body: every call starts a new iterator at the first byte, and
  without a chunk size the iterator yields the body as one chunk (no chunk when the body
  is empty).
\<close>

definition aiter_bytes :: "response \<Rightarrow> bytes list" where
  "aiter_bytes r = (if content r = [] then [] else [content r])"

text \<open>
  The generator \<^verbatim>\<open>stream_bytes\<close> (lines 207 to 233), as what it does when it is
  iterated: it raises before its first \<^verbatim>\<open>yield\<close> (\<open>Inl\<close>), or it yields the chunks of the
  list and stops. Opening the stream and \<^verbatim>\<open>aread\<close> are the request \<open>net rq\<close>; no later
  statement of the generator reads from the network.
\<close>

definition stream_bytes :: "http \<Rightarrow> request \<Rightarrow> error + bytes list" where
  "stream_bytes net rq =
     (case net rq of
        Inl e \<Rightarrow> Inl e
      | Inr streamedResponse \<Rightarrow>
          if status_code streamedResponse \<noteq> 200 then Inl InvalidResponseException
          else
            (let first_chunk = (case aiter_bytes streamedResponse of [] \<Rightarrow> [] | chunk # _ \<Rightarrow> chunk)
             in if \<not> is_valid_container first_chunk then Inr []
                else Inr ([first_chunk] @ aiter_bytes streamedResponse)))"

definition valid_stream_generator :: "bytes \<Rightarrow> bytes list \<Rightarrow> bytes list" where
  "valid_stream_generator first_chunk gen = [first_chunk] @ gen"

text \<open>
  The loop of lines 204 to 254. \<^verbatim>\<open>gen.__anext__()\<close> takes the first chunk off the
  generator; a generator that stops at once raises \<^verbatim>\<open>StopAsyncIteration\<close> and the loop
  goes on, as it does on every exception.
\<close>

fun bytes_stream ::
  "http \<Rightarrow> (string \<rightharpoonup> string) \<Rightarrow> (string \<rightharpoonup> string) \<Rightarrow> string list \<Rightarrow> string list \<times> fetched" where
  "bytes_stream net h cks [] = ([], NoneValue)"
| "bytes_stream net h cks (u # urls) =
     (case stream_bytes net \<lparr>req_url = u, req_headers = h, req_cookies = cks\<rparr> of
        Inr (first # gen) \<Rightarrow> ([u], Chunks (valid_stream_generator first gen))
      | Inr [] \<Rightarrow> (case bytes_stream net h cks urls of (attempted, res) \<Rightarrow> (u # attempted, res))
      | Inl e \<Rightarrow> (case bytes_stream net h cks urls of (attempted, res) \<Rightarrow> (u # attempted, res)))"

text \<open>
  \<^verbatim>\<open>Video.bytes\<close> (lines 192 to 272). \<^verbatim>\<open>h = session.headers\<close> (line 198) names the
  session's own mapping, so the three assignments to \<open>h\<close> (lines 199 to 201,
  \<open>media_headers\<close>) write into the session. The function returns the session as it
  leaves it, the URLs it attempted, and its result; \<open>Inl\<close> would be an exception that
  leaves the function, and there is none, since each loop catches the exceptions of its
  body.
\<close>

definition media_headers :: "(string \<rightharpoonup> string) \<Rightarrow> (string \<rightharpoonup> string)" where
  "media_headers h =
     h(''range'' \<mapsto> ''bytes=0-'',
       ''accept-encoding'' \<mapsto> ''identity;q=1, *;q=0'',
       ''referer'' \<mapsto> ''https://www.tiktok.com/'')"

definition Video_bytes ::
  "http \<Rightarrow> session \<Rightarrow> json \<Rightarrow> bool \<Rightarrow> session \<times> string list \<times> (error + fetched)" where
  "Video_bytes net s as_dict stream =
     (let urls = extract_url_lists as_dict;
          cks = get_session_cookies s;
          h = media_headers (session_headers s);
          s' = s\<lparr>session_headers := h\<rparr>;
          (attempted, res) =
            (if stream then bytes_stream net h cks urls else bytes_standard net h cks urls)
      in (s', attempted, Inr res))"

section \<open>\<^verbatim>\<open>Video.info\<close> as a whole\<close>











section \<open>The specification's conditions on a candidate\<close>

text \<open>
  The outcome of the request for a candidate is a response or an exception. In
  whole-body mode the specification lets a candidate succeed when the status is 200, the
  \<open>Content-Type\<close> header contains \<open>video\<close> and the body passes the signature test. In
  streaming mode the first chunk of the stream is the first chunk that iterating the
  response yields; it is rejected when there is none or when it fails the signature test,
  and a candidate succeeds when the status is 200 and its first chunk is not rejected.
\<close>

definition candidate_ok :: "error + response \<Rightarrow> bool" where
  "candidate_ok outcome =
     (case outcome of
        Inl e \<Rightarrow> False
      | Inr r \<Rightarrow>
          status_code r = 200
          \<and> (case resp_headers r ''Content-Type'' of None \<Rightarrow> False | Some t \<Rightarrow> contains ''video'' t)
          \<and> is_valid_container (content r))"

definition first_chunk_rejected :: "error + response \<Rightarrow> bool" where
  "first_chunk_rejected outcome =
     (case outcome of
        Inl e \<Rightarrow> False
      | Inr r \<Rightarrow> (case aiter_bytes r of [] \<Rightarrow> True | chunk # _ \<Rightarrow> \<not> is_valid_container chunk))"

definition stream_candidate_ok :: "error + response \<Rightarrow> bool" where
  "stream_candidate_ok outcome =
     (case outcome of
        Inl e \<Rightarrow> False
      | Inr r \<Rightarrow> status_code r = 200 \<and> \<not> first_chunk_rejected (Inr r))"

definition candidate_succeeds :: "bool \<Rightarrow> error + response \<Rightarrow> bool" where
  "candidate_succeeds stream outcome =
     (if stream then stream_candidate_ok outcome else candidate_ok outcome)"

section \<open>Sample inputs\<close>

text \<open>A 40-byte buffer that starts like an MP4 file: a box length, then \<open>ftyp\<close> at offset 4.\<close>

definition sample_mp4 :: bytes where
  "sample_mp4 = [0x00, 0x00, 0x00, 0x18, 0x66, 0x74, 0x79, 0x70] @ replicate 32 0x00"

text \<open>
  Two embedded payloads and what \<^verbatim>\<open>json.loads\<close> makes of them, and two pages. The first
  page holds the \<open>SIGI_STATE\<close> script and, after it, a rehydration script; the second
  holds the rehydration script only, with \<^verbatim>\<open>"itemInfo": null\<close>.
\<close>

definition legacy_payload :: string where
  \<open>legacy_payload = ''{"ItemModule":{"7":{"id":"7","createTime":"1700000000"}}}''\<close>

definition null_item_info_payload :: string where
  \<open>null_item_info_payload =
     ''{"__DEFAULT_SCOPE__":{"webapp.video-detail":{"statusCode":0,"itemInfo":null}}}''\<close>

definition sample_item :: json where
  "sample_item = JDict [(''id'', JStr ''7''), (''createTime'', JStr ''1700000000'')]"

definition null_item_info_tree :: json where
  "null_item_info_tree =
     JDict [(''__DEFAULT_SCOPE__'',
              JDict [(''webapp.video-detail'',
                       JDict [(''statusCode'', JInt 0), (''itemInfo'', JNull)])])]"

definition rehydration_payload :: string where
  \<open>rehydration_payload =
     ''{"__DEFAULT_SCOPE__":{"webapp.video-detail":{"statusCode":0,"itemInfo":{"itemStruct":{"id":"9"}}}}}''\<close>

definition rehydration_tree :: json where
  "rehydration_tree =
     JDict [(''__DEFAULT_SCOPE__'',
              JDict [(''webapp.video-detail'',
                       JDict [(''statusCode'', JInt 0),
                              (''itemInfo'',
                                JDict [(''itemStruct'', JDict [(''id'', JStr ''9'')])])])])]"

definition no_id_payload :: string where
  \<open>no_id_payload = ''{"ItemModule":{"7":{"createTime":1700000000}}}''\<close>

definition no_id_item :: json where
  "no_id_item = JDict [(''createTime'', JInt 1700000000)]"

definition sample_loads :: "string \<Rightarrow> error + json" where
  "sample_loads s =
     (if s = legacy_payload then Inr (JDict [(''ItemModule'', JDict [(''7'', sample_item)])])
      else if s = null_item_info_payload then Inr null_item_info_tree
      else if s = rehydration_payload then Inr rehydration_tree
      else if s = no_id_payload then Inr (JDict [(''ItemModule'', JDict [(''7'', no_id_item)])])
      else Inl JSONDecodeError)"

definition legacy_page :: string where
  "legacy_page =
     ''<html>'' @ SIGI_STATE_open @ legacy_payload @ script_close
       @ UNIVERSAL_DATA_open @ null_item_info_payload @ script_close @ ''</html>''"

definition rehydration_page :: string where
  "rehydration_page =
     ''<html>'' @ UNIVERSAL_DATA_open @ null_item_info_payload @ script_close @ ''</html>''"






text \<open>
  A network with three addresses that answer: one with status 403, one with a body of ten
  zero bytes, one with the MP4 buffer; every other request fails in transport. A session,
  and an item whose three \<open>downloadAddr\<close> fields hold the three addresses in that order.
\<close>

definition video_response :: "bytes \<Rightarrow> response" where
  "video_response body =
     \<lparr>status_code = 200, resp_headers = [''Content-Type'' \<mapsto> ''video/mp4''], content = body\<rparr>"

definition sample_net :: http where
  "sample_net rq =
     (if req_url rq = ''https://cdn.example/403''
      then Inr \<lparr>status_code = 403, resp_headers = Map.empty, content = []\<rparr>
      else if req_url rq = ''https://cdn.example/zeros''
      then Inr (video_response (replicate 10 0x00))
      else if req_url rq = ''https://cdn.example/video''
      then Inr (video_response sample_mp4)
      else Inl RequestError)"

definition sample_session :: session where
  "sample_session =
     \<lparr>session_headers = [''user-agent'' \<mapsto> ''Mozilla/5.0''], proxy = None,
      cookie_store = [''ttwid'' \<mapsto> ''1'']\<rparr>"

definition three_candidates :: json where
  "three_candidates =
     JDict [(''id'', JStr ''7''),
            (''video'',
              JDict [(''downloadAddr'', JStr ''https://cdn.example/403''),
                     (''bitrateInfo'',
                       JList [JDict [(''downloadAddr'', JStr ''https://cdn.example/zeros'')],
                              JDict [(''downloadAddr'', JStr ''https://cdn.example/video'')]])])]"

definition one_candidate :: json where
  "one_candidate = JDict [(''downloadAddr'', JStr ''https://cdn.example/video'')]"

definition two_failing_candidates :: json where
  "two_failing_candidates =
     JDict [(''downloadAddr'', JStr ''https://cdn.example/403''),
            (''play'', JDict [(''downloadAddr'', JStr ''https://cdn.example/zeros'')])]"

section \<open>Properties of the collector\<close>

lemma tree_fields_str_value: "isinstance_str v \<Longrightarrow> tree_fields v = [] \<and> v = JStr (str_value v)"
  by (cases v) simp_all

lemma extract_url_lists_fields:
  "extract_url_lists t = [s. (k, JStr s) \<leftarrow> tree_fields t, k = ''downloadAddr'']"
  "extract_items kvs =
     [s. (k, JStr s) \<leftarrow> concat (map (\<lambda>(k, v). (k, v) # tree_fields v) kvs), k = ''downloadAddr'']"
  "extract_elems xs = [s. (k, JStr s) \<leftarrow> concat (map tree_fields xs), k = ''downloadAddr'']"
proof (induction t and kvs and xs rule: extract_url_lists_extract_items_extract_elems.induct)
  case (9 key val rest)
  show ?case
  proof (cases "key = ''downloadAddr'' \<and> isinstance_str val")
    case True
    then obtain s where "val = JStr s"
      using tree_fields_str_value by blast
    with True 9 show ?thesis by simp
  next
    case False
    with 9 show ?thesis
      by (cases val) auto
  qed
qed simp_all

lemma extract_url_lists_scalar: "\<not> is_container t \<Longrightarrow> extract_url_lists t = []"
  by (cases t) simp_all

text \<open>
  Claim C8. For every JSON tree \<open>t\<close>, \<open>extract_url_lists t\<close> is exactly the list of the
  string values held by fields named \<open>downloadAddr\<close>, in depth-first document order, with
  repetitions kept; it is empty when \<open>t\<close> is neither a mapping nor a sequence, and empty
  when no such field exists. The function is pure: it returns a new list and \<open>t\<close> is not
  changed.
\<close>

theorem extract_url_lists_collects_downloadAddr:
  "extract_url_lists t = downloadAddr_strings t
   \<and> (\<not> is_container t \<longrightarrow> extract_url_lists t = [])
   \<and> ((\<forall>(k, v) \<in> set (tree_fields t). \<not> (k = ''downloadAddr'' \<and> isinstance_str v))
        \<longrightarrow> extract_url_lists t = [])"
proof (intro conjI impI)
  show eq: "extract_url_lists t = downloadAddr_strings t"
    by (simp only: downloadAddr_strings_def extract_url_lists_fields(1))
  show "extract_url_lists t = []" if "\<not> is_container t"
    using that by (rule extract_url_lists_scalar)
  show "extract_url_lists t = []"
    if none: "\<forall>(k, v) \<in> set (tree_fields t). \<not> (k = ''downloadAddr'' \<and> isinstance_str v)"
  proof -
    have "[s. (k, JStr s) \<leftarrow> fs, k = ''downloadAddr''] = []"
      if "\<forall>(k, v) \<in> set fs. \<not> (k = ''downloadAddr'' \<and> isinstance_str v)" for fs
      using that
    proof (induction fs)
      case Nil
      show ?case by simp
    next
      case (Cons f fs)
      obtain k v where f: "f = (k, v)" by (cases f)
      from Cons show ?case
        unfolding f by (cases v) auto
    qed
    with none show ?thesis
      by (simp only: extract_url_lists_fields(1))
  qed
qed

theorem extract_url_lists_collects_downloadAddr_witness:
  "extract_url_lists
     (JDict [(''video'', JDict [(''downloadAddr'', JStr ''u1''),
                               (''bitrateInfo'', JList [JDict [(''downloadAddr'', JStr ''u2'')]])]),
             (''downloadAddr'', JInt 3),
             (''downloadAddr'', JStr ''u1'')])
   = [''u1'', ''u2'', ''u1'']
   \<and> \<not> is_container (JStr ''downloadAddr'') \<and> extract_url_lists (JStr ''downloadAddr'') = []
   \<and> tree_fields (JList [JDict [(''playAddr'', JStr ''u'')]]) = [(''playAddr'', JStr ''u'')]
   \<and> extract_url_lists (JList [JDict [(''playAddr'', JStr ''u'')]]) = []"
  using extract_url_lists_collects_downloadAddr [of "JDict [(''video'', JDict [(''downloadAddr'', JStr ''u1''),
                               (''bitrateInfo'', JList [JDict [(''downloadAddr'', JStr ''u2'')]])]),
             (''downloadAddr'', JInt 3),
             (''downloadAddr'', JStr ''u1'')]"]
    extract_url_lists_collects_downloadAddr [of "JStr ''downloadAddr''"]
    extract_url_lists_collects_downloadAddr [of "JList [JDict [(''playAddr'', JStr ''u'')]]"]
  by (simp add: downloadAddr_strings_def)

section \<open>Properties of the signature test\<close>

lemma find_str_occurs:
  "find_str s sub \<noteq> None \<longleftrightarrow>
     (\<exists>i. i + length sub \<le> length s \<and> take (length sub) (drop i s) = sub)"
proof (induction s)
  case Nil
  show ?case by auto
next
  case (Cons c cs)
  show ?case
  proof (cases "take (length sub) (c # cs) = sub")
    case True
    then have "length (take (length sub) (c # cs)) = length sub"
      by simp
    then have "length sub \<le> length (c # cs)"
      by (simp only: length_take)
    with True show ?thesis
      by (auto intro: exI [of _ 0])
  next
    case False
    have "(\<exists>i. i + length sub \<le> length (c # cs) \<and> take (length sub) (drop i (c # cs)) = sub)
       \<longleftrightarrow> (\<exists>i. i + length sub \<le> length cs \<and> take (length sub) (drop i cs) = sub)"
      (is "?L \<longleftrightarrow> ?R")
    proof
      assume ?L
      then obtain i where i: "i + length sub \<le> length (c # cs)"
        "take (length sub) (drop i (c # cs)) = sub" by blast
      with False obtain j where "i = Suc j" by (cases i) auto
      with i show ?R by auto
    next
      assume ?R
      then obtain i where "i + length sub \<le> length cs" "take (length sub) (drop i cs) = sub"
        by blast
      then show ?L by (intro exI [of _ "Suc i"]) simp
    qed
    with False Cons show ?thesis by simp
  qed
qed

lemma all_less_4: "(\<forall>j<4. P j) \<longleftrightarrow> P 0 \<and> P (1::nat) \<and> P 2 \<and> P 3"
proof -
  have "j < 4 \<longleftrightarrow> j = 0 \<or> j = 1 \<or> j = 2 \<or> j = 3" for j :: nat
    by arith
  then show ?thesis by auto
qed

lemma take4_drop_eq:
  "i + 4 \<le> length xs \<Longrightarrow>
   take 4 (drop i xs) = [a, b, c, d] \<longleftrightarrow>
   xs ! i = a \<and> xs ! (i + 1) = b \<and> xs ! (i + 2) = c \<and> xs ! (i + 3) = d"
  by (simp add: list_eq_iff_nth_eq all_less_4)

lemma replicate_10: "replicate 10 x = [x, x, x, x, x, x, x, x, x, x]"
  by (simp add: eval_nat_numeral)

lemma is_valid_container_occurs:
  "is_valid_container b \<longleftrightarrow>
     (\<exists>i. i + 4 \<le> min 32 (length b) \<and> take 4 (drop i (take 32 b)) = ftyp)"
proof -
  have "length ftyp = 4" by (simp add: ftyp_def)
  with find_str_occurs [of "take 32 b" ftyp]
  have "contains ftyp (take 32 b) \<longleftrightarrow>
     (\<exists>i. i + 4 \<le> min 32 (length b) \<and> take 4 (drop i (take 32 b)) = ftyp)"
    unfolding contains_def by (simp add: min.commute)
  moreover have "b \<noteq> []" if "contains ftyp (take 32 b)"
    using that by (auto simp: contains_def ftyp_def)
  ultimately show ?thesis
    by (auto simp: is_valid_container_def)
qed

lemma is_valid_container_index:
  "is_valid_container b \<longleftrightarrow>
     (\<exists>i. i + 4 \<le> 32 \<and> i + 4 \<le> length b \<and>
          b ! i = 0x66 \<and> b ! (i + 1) = 0x74 \<and> b ! (i + 2) = 0x79 \<and> b ! (i + 3) = 0x70)"
proof -
  have "take 4 (drop i (take 32 b)) = ftyp \<longleftrightarrow>
      b ! i = 0x66 \<and> b ! (i + 1) = 0x74 \<and> b ! (i + 2) = 0x79 \<and> b ! (i + 3) = 0x70"
    if "i + 4 \<le> min 32 (length b)" for i
  proof -
    from that have "i + 4 \<le> length (take 32 b)" by simp
    then have "take 4 (drop i (take 32 b)) = ftyp \<longleftrightarrow>
      take 32 b ! i = 0x66 \<and> take 32 b ! (i + 1) = 0x74 \<and> take 32 b ! (i + 2) = 0x79
        \<and> take 32 b ! (i + 3) = 0x70"
      unfolding ftyp_def by (rule take4_drop_eq)
    with that show ?thesis by simp
  qed
  then show ?thesis
    unfolding is_valid_container_occurs by auto
qed

lemma sample_mp4_valid: "length sample_mp4 = 40 \<and> take 4 (drop 4 sample_mp4) = ftyp"
  by (simp add: sample_mp4_def ftyp_def)

text \<open>
  Claim C7. For every byte buffer \<open>b\<close>, the signature test succeeds if and only if the four
  bytes \<open>ftyp\<close> (66 74 79 70 in hexadecimal) stand at some offset \<open>i\<close> with all four inside
  the first 32 bytes of \<open>b\<close>. It fails on the buffer of ten zero bytes, and it succeeds on
  every buffer of 40 bytes that has \<open>ftyp\<close> at offset 4.
\<close>

theorem is_valid_container_iff_ftyp_in_first_32:
  "(is_valid_container b \<longleftrightarrow>
      (\<exists>i. i + 4 \<le> 32 \<and> i + 4 \<le> length b \<and>
           b ! i = 0x66 \<and> b ! (i + 1) = 0x74 \<and> b ! (i + 2) = 0x79 \<and> b ! (i + 3) = 0x70))
   \<and> \<not> is_valid_container (replicate 10 0)
   \<and> (length c = 40 \<and> take 4 (drop 4 c) = ftyp \<longrightarrow> is_valid_container c)"
proof (intro conjI impI)
  show "is_valid_container b \<longleftrightarrow>
      (\<exists>i. i + 4 \<le> 32 \<and> i + 4 \<le> length b \<and>
           b ! i = 0x66 \<and> b ! (i + 1) = 0x74 \<and> b ! (i + 2) = 0x79 \<and> b ! (i + 3) = 0x70)"
    by (rule is_valid_container_index)
  show "\<not> is_valid_container (replicate 10 0)"
    by (simp add: is_valid_container_def contains_def ftyp_def replicate_10)
  show "is_valid_container c" if c: "length c = 40 \<and> take 4 (drop 4 c) = ftyp"
  proof -
    from c have "4 + 4 \<le> min 32 (length c)" by simp
    moreover from c have "take 4 (drop 4 (take 32 c)) = ftyp"
      by (simp add: drop_take)
    ultimately show ?thesis
      unfolding is_valid_container_occurs by blast
  qed
qed

theorem is_valid_container_iff_ftyp_in_first_32_witness:
  "length sample_mp4 = 40 \<and> take 4 (drop 4 sample_mp4) = ftyp \<and> is_valid_container sample_mp4"
  using is_valid_container_iff_ftyp_in_first_32 [of _ sample_mp4] sample_mp4_valid
  by blast

section \<open>Properties of the page state\<close>

text \<open>
  \<open>find_str\<close> is \<^verbatim>\<open>str.find\<close>: the index it returns is an occurrence of \<open>sub\<close>, and the
  lowest one.
\<close>

lemma find_str_lowest:
  "find_str s sub = Some p \<Longrightarrow>
     p + length sub \<le> length s \<and> take (length sub) (drop p s) = sub
     \<and> (\<forall>i<p. take (length sub) (drop i s) \<noteq> sub)"
proof (induction s arbitrary: p)
  case Nil
  then show ?case by (simp split: if_splits)
next
  case (Cons c cs)
  show ?case
  proof (cases "take (length sub) (c # cs) = sub")
    case True
    then have "length (take (length sub) (c # cs)) = length sub"
      by simp
    then have "length sub \<le> length (c # cs)"
      by (simp only: length_take)
    with True Cons.prems show ?thesis by simp
  next
    case False
    with Cons.prems obtain q where q: "find_str cs sub = Some q" "p = Suc q"
      by auto
    from Cons.IH [OF q(1)] have IH: "q + length sub \<le> length cs"
      "take (length sub) (drop q cs) = sub"
      "\<forall>i<q. take (length sub) (drop i cs) \<noteq> sub"
      by simp_all
    have "take (length sub) (drop i (c # cs)) \<noteq> sub" if "i < p" for i
    proof (cases i)
      case 0
      with False show ?thesis by simp
    next
      case (Suc j)
      with that q(2) IH(3) show ?thesis by simp
    qed
    with IH q(2) show ?thesis by simp
  qed
qed

lemmas page_defs =
  legacy_page_def rehydration_page_def SIGI_STATE_open_def UNIVERSAL_DATA_open_def
  script_close_def legacy_payload_def null_item_info_payload_def







text \<open>
  What the rehydration branch does with a decoded mapping whose \<open>__DEFAULT_SCOPE__\<close> and
  \<open>webapp.video-detail\<close> entries are mappings or missing (the default of
  \<^verbatim>\<open>get\<close> is the empty mapping): a status code other than 0 is rejected, a
  missing \<open>itemInfo\<close>, a missing \<open>itemStruct\<close> and a null \<open>itemStruct\<close> are rejected, an
  \<open>itemInfo\<close> that is a mapping yields its \<open>itemStruct\<close>, and an \<open>itemInfo\<close> that is
  present but not a mapping raises \<^verbatim>\<open>AttributeError\<close>.
\<close>

lemma video_detail_item_mappings:
  "dict_get data ''__DEFAULT_SCOPE__'' (JDict []) = Inr (JDict scope) \<Longrightarrow>
   dict_get (JDict scope) ''webapp.video-detail'' (JDict []) = Inr (JDict detail) \<Longrightarrow>
   video_detail_item data =
     (if ne_zero (case map_of detail ''statusCode'' of None \<Rightarrow> JInt 0 | Some c \<Rightarrow> c)
      then Inl InvalidResponseException
      else case map_of detail ''itemInfo'' of
             None \<Rightarrow> Inl InvalidResponseException
           | Some (JDict item_info) \<Rightarrow>
               (case map_of item_info ''itemStruct'' of
                  None \<Rightarrow> Inl InvalidResponseException
                | Some JNull \<Rightarrow> Inl InvalidResponseException
                | Some item \<Rightarrow> Inr item)
           | Some other \<Rightarrow> Inl AttributeError)"
  by (simp add: video_detail_item_def split: option.splits json.splits)

text \<open>
  Claim C4, at the page whose rehydration payload is
  \<^verbatim>\<open>{"__DEFAULT_SCOPE__":{"webapp.video-detail":{"statusCode":0,"itemInfo":null}}}\<close>.
  The page has status 200, no \<open>SIGI_STATE\<close> marker, both rehydration markers and JSON that
  decodes; \<open>statusCode\<close> is 0 and there is no \<open>itemInfo.itemStruct\<close>. The extraction
  raises \<^verbatim>\<open>AttributeError\<close> (\<^verbatim>\<open>None\<close> has no \<^verbatim>\<open>get\<close>), where the claim and the docstring
  of \<^verbatim>\<open>info\<close> say \<^verbatim>\<open>InvalidResponseException\<close>.
\<close>

theorem info_rehydration_null_itemInfo_raises_AttributeError:
  "find_str rehydration_page SIGI_STATE_open = None
   \<and> sample_loads null_item_info_payload = Inr null_item_info_tree
   \<and> video_detail_item null_item_info_tree = Inl AttributeError
   \<and> info_video_info sample_loads 200 rehydration_page ''7'' = Inl AttributeError"
proof (intro conjI)
  show "find_str rehydration_page SIGI_STATE_open = None"
    by (simp add: page_defs)
  show "sample_loads null_item_info_payload = Inr null_item_info_tree"
    by (simp add: sample_loads_def legacy_payload_def null_item_info_payload_def)
  show "video_detail_item null_item_info_tree = Inl AttributeError"
    by (simp add: video_detail_item_def null_item_info_tree_def)
  show "info_video_info sample_loads 200 rehydration_page ''7'' = Inl AttributeError"
    by (simp add: info_video_info_def UNIVERSAL_DATA_branch_def video_detail_item_def
        null_item_info_tree_def sample_loads_def find_from_def slice_def page_defs)
qed

section \<open>Properties of the normalisation\<close>

text \<open>
  Claim C9, at an item without \<open>createTime\<close> and at an item whose \<open>createTime\<close> is a string
  that \<^verbatim>\<open>int\<close> rejects. In both, line 285 calls \<^verbatim>\<open>datetime.fromtimestamp\<close> on a value
  that is not a number (\<^verbatim>\<open>None\<close>, the string) and the normalisation raises
  \<^verbatim>\<open>TypeError\<close>; the claim says it succeeds.
\<close>

theorem extract_from_data_without_createTime_raises:
  "extract_from_data parse of_number (JDict [(''id'', JStr ''7'')]) = Inl TypeError
   \<and> extract_from_data (\<lambda>s. None) of_number
        (JDict [(''id'', JStr ''7''), (''createTime'', JStr ''soon'')]) = Inl TypeError"
  by (simp add: extract_from_data_def coerce_timestamp_def)

section \<open>Properties of the whole-body loop\<close>


lemma standard_attempt_fails:
  "\<not> candidate_ok (net rq) \<Longrightarrow> \<exists>e. standard_attempt net rq = Inl e"
  by (auto simp: candidate_ok_def standard_attempt_def contains_def
      split: sum.splits option.splits)

lemma bytes_standard_skip:
  "\<forall>u \<in> set pre. \<not> candidate_ok (net \<lparr>req_url = u, req_headers = h, req_cookies = cks\<rparr>) \<Longrightarrow>
   bytes_standard net h cks (pre @ rest) =
     (pre @ fst (bytes_standard net h cks rest), snd (bytes_standard net h cks rest))"
proof (induction pre)
  case Nil
  show ?case by simp
next
  case (Cons u pre)
  then obtain e where
    "standard_attempt net \<lparr>req_url = u, req_headers = h, req_cookies = cks\<rparr> = Inl e"
    using standard_attempt_fails [of net "\<lparr>req_url = u, req_headers = h, req_cookies = cks\<rparr>"]
    by auto
  with Cons show ?case by (simp add: case_prod_beta)
qed

lemmas net_defs =
  sample_net_def video_response_def sample_mp4_def candidate_ok_def first_chunk_rejected_def
  stream_candidate_ok_def candidate_succeeds_def aiter_bytes_def is_valid_container_def
  contains_def ftyp_def replicate_10



text \<open>
  The same run through \<^verbatim>\<open>Video.bytes\<close>: of three candidates, the first answers 403, the
  second fails the signature test, and the body of the third is returned.
\<close>

lemma Video_bytes_three_candidates:
  "snd (Video_bytes sample_net sample_session three_candidates False)
     = ([''https://cdn.example/403'', ''https://cdn.example/zeros'', ''https://cdn.example/video''],
        Inr (Body sample_mp4))"
  by (simp add: Video_bytes_def three_candidates_def standard_attempt_def sample_net_def
      video_response_def is_valid_container_def contains_def ftyp_def replicate_10
      sample_mp4_def)

section \<open>Properties of the streaming loop\<close>

lemma stream_bytes_rejected:
  "first_chunk_rejected (net rq) \<Longrightarrow>
   stream_bytes net rq = Inr [] \<or> (\<exists>e. stream_bytes net rq = Inl e)"
  by (auto simp: first_chunk_rejected_def stream_bytes_def aiter_bytes_def
      is_valid_container_def Let_def split: sum.splits list.splits if_splits)

lemma stream_bytes_not_ok:
  "\<not> stream_candidate_ok (net rq) \<Longrightarrow>
   stream_bytes net rq = Inr [] \<or> (\<exists>e. stream_bytes net rq = Inl e)"
  by (auto simp: stream_candidate_ok_def first_chunk_rejected_def stream_bytes_def
      aiter_bytes_def is_valid_container_def Let_def split: sum.splits list.splits if_splits)

lemma stream_bytes_valid:
  "net rq = Inr r \<Longrightarrow> status_code r = 200 \<Longrightarrow> is_valid_container (content r) \<Longrightarrow>
   stream_bytes net rq = Inr [content r, content r]"
  by (auto simp: stream_bytes_def aiter_bytes_def is_valid_container_def Let_def)

lemma bytes_stream_continue:
  "stream_bytes net \<lparr>req_url = u, req_headers = h, req_cookies = cks\<rparr> = Inr [] \<or>
     (\<exists>e. stream_bytes net \<lparr>req_url = u, req_headers = h, req_cookies = cks\<rparr> = Inl e) \<Longrightarrow>
   bytes_stream net h cks (u # urls) =
     (u # fst (bytes_stream net h cks urls), snd (bytes_stream net h cks urls))"
  by (auto simp: case_prod_beta)

lemma bytes_stream_skip:
  "\<forall>u \<in> set pre. stream_bytes net \<lparr>req_url = u, req_headers = h, req_cookies = cks\<rparr> = Inr [] \<or>
     (\<exists>e. stream_bytes net \<lparr>req_url = u, req_headers = h, req_cookies = cks\<rparr> = Inl e) \<Longrightarrow>
   bytes_stream net h cks (pre @ rest) =
     (pre @ fst (bytes_stream net h cks rest), snd (bytes_stream net h cks rest))"
proof (induction pre)
  case Nil
  show ?case by simp
next
  case (Cons u pre)
  then show ?case
    by (simp only: append_Cons bytes_stream_continue list.set insert_iff ball_simps) simp
qed

lemma stream_bytes_ok:
  "stream_candidate_ok (net rq) \<Longrightarrow> net rq = Inr r \<Longrightarrow>
   stream_bytes net rq = Inr [content r, content r]"
  by (auto simp: stream_candidate_ok_def first_chunk_rejected_def stream_bytes_def
      aiter_bytes_def Let_def split: if_splits)

lemma bytes_stream_attempts_head:
  "\<exists>attempted. fst (bytes_stream net h cks (x # rest)) = x # attempted"
  by (simp split: sum.splits list.splits prod.splits)

text \<open>
  Claim C2. In streaming mode a candidate fails when its request raises, when its status
  is not 200, or when its first chunk is rejected (absent, or failing the signature
  test); a candidate with a rejected first chunk always fails. Let the candidates \<open>pre\<close>
  all fail, in any mixture of these ways. Then the loop attempts every one of them, in
  order; if the next candidate \<open>v\<close> succeeds with response \<open>r\<close>, the loop attempts \<open>v\<close>, none
  of the candidates after it, and the chunks it hands to the caller are made of the body
  of \<open>r\<close> alone (twice over, see claim C1), so no byte of a failed candidate reaches the
  caller; if no candidate is left, the caller receives no chunk at all. A candidate
  \<open>x\<close> that follows a reached candidate with a rejected first chunk is attempted.
\<close>

theorem bytes_stream_rejected_candidates_skipped:
  "(first_chunk_rejected outcome \<longrightarrow> \<not> stream_candidate_ok outcome)
   \<and> ((\<forall>w \<in> set pre.
          \<not> stream_candidate_ok (net \<lparr>req_url = w, req_headers = h, req_cookies = cks\<rparr>)) \<longrightarrow>
        bytes_stream net h cks pre = (pre, NoneValue)
        \<and> (stream_candidate_ok (net \<lparr>req_url = v, req_headers = h, req_cookies = cks\<rparr>)
             \<and> net \<lparr>req_url = v, req_headers = h, req_cookies = cks\<rparr> = Inr r
           \<longrightarrow> bytes_stream net h cks (pre @ v # post)
                 = (pre @ [v], Chunks [content r, content r]))
        \<and> (first_chunk_rejected (net \<lparr>req_url = u, req_headers = h, req_cookies = cks\<rparr>)
           \<longrightarrow> (\<exists>attempted. fst (bytes_stream net h cks (pre @ u # x # rest))
                   = pre @ u # x # attempted)))"
proof (intro conjI impI)
  assume "first_chunk_rejected outcome"
  then show "\<not> stream_candidate_ok outcome"
    by (auto simp: stream_candidate_ok_def first_chunk_rejected_def split: sum.splits)
next
  assume pre: "\<forall>w \<in> set pre.
     \<not> stream_candidate_ok (net \<lparr>req_url = w, req_headers = h, req_cookies = cks\<rparr>)"
  then have skip: "\<forall>w \<in> set pre.
      stream_bytes net \<lparr>req_url = w, req_headers = h, req_cookies = cks\<rparr> = Inr [] \<or>
      (\<exists>e. stream_bytes net \<lparr>req_url = w, req_headers = h, req_cookies = cks\<rparr> = Inl e)"
    using stream_bytes_not_ok [of net] by blast
  from bytes_stream_skip [OF skip, of "[]"]
  show "bytes_stream net h cks pre = (pre, NoneValue)" by simp
  {
    assume "stream_candidate_ok (net \<lparr>req_url = v, req_headers = h, req_cookies = cks\<rparr>)
         \<and> net \<lparr>req_url = v, req_headers = h, req_cookies = cks\<rparr> = Inr r"
    then have "stream_bytes net \<lparr>req_url = v, req_headers = h, req_cookies = cks\<rparr>
        = Inr [content r, content r]"
      by (blast intro: stream_bytes_ok)
    then have "bytes_stream net h cks (v # post) = ([v], Chunks [content r, content r])"
      by (simp add: valid_stream_generator_def)
    with bytes_stream_skip [OF skip, of "v # post"]
    show "bytes_stream net h cks (pre @ v # post) = (pre @ [v], Chunks [content r, content r])"
      by simp
  }
  {
    assume "first_chunk_rejected (net \<lparr>req_url = u, req_headers = h, req_cookies = cks\<rparr>)"
    then have "stream_bytes net \<lparr>req_url = u, req_headers = h, req_cookies = cks\<rparr> = Inr [] \<or>
      (\<exists>e. stream_bytes net \<lparr>req_url = u, req_headers = h, req_cookies = cks\<rparr> = Inl e)"
      by (rule stream_bytes_rejected)
    with skip have "\<forall>w \<in> set (pre @ [u]).
      stream_bytes net \<lparr>req_url = w, req_headers = h, req_cookies = cks\<rparr> = Inr [] \<or>
      (\<exists>e. stream_bytes net \<lparr>req_url = w, req_headers = h, req_cookies = cks\<rparr> = Inl e)"
      by simp
    from bytes_stream_skip [OF this, of "x # rest"]
    have "fst (bytes_stream net h cks (pre @ u # x # rest))
        = pre @ u # fst (bytes_stream net h cks (x # rest))"
      by simp
    with bytes_stream_attempts_head [of net h cks x rest]
    show "\<exists>attempted. fst (bytes_stream net h cks (pre @ u # x # rest))
        = pre @ u # x # attempted"
      by auto
  }
qed

theorem bytes_stream_rejected_candidates_skipped_witness:
  "first_chunk_rejected (sample_net \<lparr>req_url = ''https://cdn.example/zeros'',
        req_headers = Map.empty, req_cookies = Map.empty\<rparr>)
   \<and> \<not> stream_candidate_ok (sample_net \<lparr>req_url = ''https://cdn.example/gone'',
        req_headers = Map.empty, req_cookies = Map.empty\<rparr>)
   \<and> \<not> stream_candidate_ok (sample_net \<lparr>req_url = ''https://cdn.example/zeros'',
        req_headers = Map.empty, req_cookies = Map.empty\<rparr>)
   \<and> \<not> stream_candidate_ok (sample_net \<lparr>req_url = ''https://cdn.example/403'',
        req_headers = Map.empty, req_cookies = Map.empty\<rparr>)
   \<and> stream_candidate_ok (sample_net \<lparr>req_url = ''https://cdn.example/video'',
        req_headers = Map.empty, req_cookies = Map.empty\<rparr>)
   \<and> bytes_stream sample_net Map.empty Map.empty
        [''https://cdn.example/gone'', ''https://cdn.example/zeros'', ''https://cdn.example/403'']
      = ([''https://cdn.example/gone'', ''https://cdn.example/zeros'', ''https://cdn.example/403''],
         NoneValue)
   \<and> bytes_stream sample_net Map.empty Map.empty
        [''https://cdn.example/gone'', ''https://cdn.example/zeros'', ''https://cdn.example/403'',
         ''https://cdn.example/video'', ''https://cdn.example/zeros'']
      = ([''https://cdn.example/gone'', ''https://cdn.example/zeros'', ''https://cdn.example/403'',
          ''https://cdn.example/video''],
         Chunks [sample_mp4, sample_mp4])"
proof -
  let ?rq = "\<lambda>w. \<lparr>req_url = w, req_headers = Map.empty, req_cookies = Map.empty\<rparr>"
  have 0: "first_chunk_rejected (sample_net (?rq ''https://cdn.example/zeros''))"
    by (simp add: net_defs)
  have 1: "\<not> stream_candidate_ok (sample_net (?rq ''https://cdn.example/gone''))"
    by (simp add: net_defs)
  have 2: "\<not> stream_candidate_ok (sample_net (?rq ''https://cdn.example/zeros''))"
    by (simp add: net_defs)
  have 3: "\<not> stream_candidate_ok (sample_net (?rq ''https://cdn.example/403''))"
    by (simp add: net_defs)
  have 4: "stream_candidate_ok (sample_net (?rq ''https://cdn.example/video''))"
    by (simp add: net_defs)
  have 5: "sample_net (?rq ''https://cdn.example/video'') = Inr (video_response sample_mp4)"
    by (simp add: sample_net_def)
  have c: "content (video_response sample_mp4) = sample_mp4"
    by (simp add: video_response_def)
  from 1 2 3 have pre: "\<forall>w \<in> set [''https://cdn.example/gone'', ''https://cdn.example/zeros'',
        ''https://cdn.example/403'']. \<not> stream_candidate_ok (sample_net (?rq w))"
    by simp
  from bytes_stream_rejected_candidates_skipped
    [where pre = "[''https://cdn.example/gone'', ''https://cdn.example/zeros'',
        ''https://cdn.example/403'']"
      and net = sample_net and h = Map.empty and cks = Map.empty
      and v = "''https://cdn.example/video''" and r = "video_response sample_mp4"
      and post = "[''https://cdn.example/zeros'']"
      and outcome = "sample_net (?rq ''https://cdn.example/zeros'')"
      and u = "''https://cdn.example/zeros''" and x = "''https://cdn.example/video''"
      and rest = "[]"] pre 0 4 5 c
  have "bytes_stream sample_net Map.empty Map.empty
        [''https://cdn.example/gone'', ''https://cdn.example/zeros'', ''https://cdn.example/403'']
      = ([''https://cdn.example/gone'', ''https://cdn.example/zeros'', ''https://cdn.example/403''],
         NoneValue)
   \<and> bytes_stream sample_net Map.empty Map.empty
        [''https://cdn.example/gone'', ''https://cdn.example/zeros'', ''https://cdn.example/403'',
         ''https://cdn.example/video'', ''https://cdn.example/zeros'']
      = ([''https://cdn.example/gone'', ''https://cdn.example/zeros'', ''https://cdn.example/403'',
          ''https://cdn.example/video''],
         Chunks [sample_mp4, sample_mp4])"
    by simp
  with 0 1 2 3 4 show ?thesis by blast
qed

text \<open>
  Claim C1, at one candidate that answers with status 200 and the 40-byte MP4 buffer. Its
  first chunk (the whole loaded body) passes the signature test. \<^verbatim>\<open>stream_bytes\<close> yields
  that chunk (line 229) and then iterates \<^verbatim>\<open>streamedResponse.aiter_bytes()\<close> a second time
  (line 232), which starts again at the first byte of the loaded body. The caller
  receives the body twice: 80 bytes for a stream of 40.
\<close>

theorem Video_bytes_stream_yields_body_twice:
  "is_valid_container sample_mp4
   \<and> snd (Video_bytes sample_net sample_session one_candidate True)
       = ([''https://cdn.example/video''], Inr (Chunks [sample_mp4, sample_mp4]))
   \<and> concat [sample_mp4, sample_mp4] \<noteq> sample_mp4"
proof (intro conjI)
  show v: "is_valid_container sample_mp4"
    using sample_mp4_valid is_valid_container_occurs [of sample_mp4]
    by (auto intro: exI [of _ 4] simp: drop_take)
  have "stream_bytes sample_net \<lparr>req_url = ''https://cdn.example/video'',
      req_headers = h, req_cookies = c\<rparr> = Inr [sample_mp4, sample_mp4]" for h c
    using stream_bytes_valid [of sample_net _ "video_response sample_mp4"] v
    by (simp add: sample_net_def video_response_def)
  then show "snd (Video_bytes sample_net sample_session one_candidate True)
       = ([''https://cdn.example/video''], Inr (Chunks [sample_mp4, sample_mp4]))"
    by (simp add: Video_bytes_def one_candidate_def valid_stream_generator_def)
  have "length (concat [sample_mp4, sample_mp4]) \<noteq> length sample_mp4"
    using sample_mp4_valid by simp
  then show "concat [sample_mp4, sample_mp4] \<noteq> sample_mp4"
    by metis
qed

section \<open>Properties of \<^verbatim>\<open>Video.bytes\<close> as a whole\<close>

text \<open>
  Claim C6 as stated fails: with no candidate, in either mode, and with two candidates
  that both fail, \<^verbatim>\<open>Video.bytes\<close> raises nothing and returns \<^verbatim>\<open>None\<close>.
\<close>

theorem Video_bytes_exhausted_returns_None_counterexample:
  "snd (Video_bytes sample_net sample_session (JDict []) False) = ([], Inr NoneValue)
   \<and> snd (Video_bytes sample_net sample_session (JDict []) True) = ([], Inr NoneValue)
   \<and> snd (Video_bytes sample_net sample_session two_failing_candidates False)
       = ([''https://cdn.example/403'', ''https://cdn.example/zeros''], Inr NoneValue)
   \<and> \<not> isl (snd (snd (Video_bytes sample_net sample_session (JDict []) False)))"
  by (simp add: Video_bytes_def two_failing_candidates_def standard_attempt_def net_defs)

text \<open>
  Claim C6, amended. In either mode, when the candidate list is empty or every candidate
  fails (in whole-body mode the specification's condition, in streaming mode status 200
  with an accepted first chunk; an exception of the request fails both), \<^verbatim>\<open>Video.bytes\<close>
  has attempted every candidate once, in order, and returns \<^verbatim>\<open>None\<close> without raising.
\<close>

theorem Video_bytes_all_candidates_fail_returns_None:
  "(\<forall>u \<in> set (extract_url_lists as_dict).
       \<not> candidate_succeeds stream
           (net \<lparr>req_url = u, req_headers = media_headers (session_headers s),
                 req_cookies = get_session_cookies s\<rparr>)) \<longrightarrow>
   snd (Video_bytes net s as_dict stream) = (extract_url_lists as_dict, Inr NoneValue)"
proof
  let ?h = "media_headers (session_headers s)" and ?c = "get_session_cookies s"
  let ?urls = "extract_url_lists as_dict"
  assume fail: "\<forall>u \<in> set ?urls.
       \<not> candidate_succeeds stream (net \<lparr>req_url = u, req_headers = ?h, req_cookies = ?c\<rparr>)"
  show "snd (Video_bytes net s as_dict stream) = (?urls, Inr NoneValue)"
  proof (cases stream)
    case True
    with fail have "\<forall>u \<in> set ?urls.
        stream_bytes net \<lparr>req_url = u, req_headers = ?h, req_cookies = ?c\<rparr> = Inr [] \<or>
        (\<exists>e. stream_bytes net \<lparr>req_url = u, req_headers = ?h, req_cookies = ?c\<rparr> = Inl e)"
      using stream_bytes_not_ok [of net] by (simp add: candidate_succeeds_def)
    from bytes_stream_skip [OF this, of "[]"]
    have "bytes_stream net ?h ?c ?urls = (?urls, NoneValue)" by simp
    with True show ?thesis by (simp add: Video_bytes_def)
  next
    case False
    with fail have "\<forall>u \<in> set ?urls.
        \<not> candidate_ok (net \<lparr>req_url = u, req_headers = ?h, req_cookies = ?c\<rparr>)"
      by (simp add: candidate_succeeds_def)
    from bytes_standard_skip [OF this, of "[]"]
    have "bytes_standard net ?h ?c ?urls = (?urls, NoneValue)" by simp
    with False show ?thesis by (simp add: Video_bytes_def)
  qed
qed

theorem Video_bytes_all_candidates_fail_returns_None_witness:
  "extract_url_lists two_failing_candidates
     = [''https://cdn.example/403'', ''https://cdn.example/zeros'']
   \<and> \<not> candidate_succeeds True
         (sample_net \<lparr>req_url = ''https://cdn.example/403'',
            req_headers = media_headers (session_headers sample_session),
            req_cookies = get_session_cookies sample_session\<rparr>)
   \<and> \<not> candidate_succeeds True
         (sample_net \<lparr>req_url = ''https://cdn.example/zeros'',
            req_headers = media_headers (session_headers sample_session),
            req_cookies = get_session_cookies sample_session\<rparr>)
   \<and> snd (Video_bytes sample_net sample_session two_failing_candidates True)
       = ([''https://cdn.example/403'', ''https://cdn.example/zeros''], Inr NoneValue)"
proof -
  have 1: "extract_url_lists two_failing_candidates
     = [''https://cdn.example/403'', ''https://cdn.example/zeros'']"
    by (simp add: two_failing_candidates_def)
  have 2: "\<not> candidate_succeeds True
         (sample_net \<lparr>req_url = ''https://cdn.example/403'',
            req_headers = media_headers (session_headers sample_session),
            req_cookies = get_session_cookies sample_session\<rparr>)"
    by (simp add: net_defs)
  have 3: "\<not> candidate_succeeds True
         (sample_net \<lparr>req_url = ''https://cdn.example/zeros'',
            req_headers = media_headers (session_headers sample_session),
            req_cookies = get_session_cookies sample_session\<rparr>)"
    by (simp add: net_defs)
  from Video_bytes_all_candidates_fail_returns_None
    [of two_failing_candidates True sample_net sample_session] 1 2 3
  show ?thesis by simp
qed

text \<open>
  Claim C10 as stated fails: the session's header mapping has no \<open>range\<close> entry before the
  call and has one after it.
\<close>

theorem Video_bytes_writes_session_headers_counterexample:
  "session_headers sample_session ''range'' = None
   \<and> session_headers (fst (Video_bytes sample_net sample_session one_candidate False)) ''range''
       = Some ''bytes=0-''
   \<and> session_headers (fst (Video_bytes sample_net sample_session one_candidate False))
       \<noteq> session_headers sample_session"
proof -
  have 1: "session_headers sample_session ''range'' = None"
    by (simp add: sample_session_def)
  have 2: "session_headers (fst (Video_bytes sample_net sample_session one_candidate False))
      ''range'' = Some ''bytes=0-''"
    by (simp add: Video_bytes_def sample_session_def media_headers_def case_prod_beta Let_def)
  from 1 2 have "session_headers (fst (Video_bytes sample_net sample_session one_candidate False))
       \<noteq> session_headers sample_session"
    by (metis option.distinct(1))
  with 1 2 show ?thesis by blast
qed

text \<open>
  Claim C10, amended. For every call of \<^verbatim>\<open>Video.bytes\<close>, in either mode and whatever
  the network answers, the session's proxy and cookie store are as before (the cookie
  store is read), and the session's header mapping is the one before the call with
  \<open>range\<close>, \<open>accept-encoding\<close> and \<open>referer\<close> set to the values of lines 199 to 201; every
  other header is unchanged.
\<close>

theorem Video_bytes_session_frame:
  "proxy (fst (Video_bytes net s as_dict stream)) = proxy s
   \<and> cookie_store (fst (Video_bytes net s as_dict stream)) = cookie_store s
   \<and> session_headers (fst (Video_bytes net s as_dict stream)) =
       (session_headers s)
         (''range'' \<mapsto> ''bytes=0-'',
          ''accept-encoding'' \<mapsto> ''identity;q=1, *;q=0'',
          ''referer'' \<mapsto> ''https://www.tiktok.com/'')"
  by (simp add: Video_bytes_def media_headers_def case_prod_beta Let_def)

end
